theory Spec2Isabelle
  imports Main "HOL-Library.AList"
begin

section \<open>Values exchanged by the two MCP test clients\<close>

text \<open>
  The two scripts \<^verbatim>\<open>server/test_mcp_connection.py\<close> and \<^verbatim>\<open>server/test_mcp_sse.py\<close>
  build JSON-RPC requests from Python dictionaries and hand them to an HTTP library.
  A Python \<^verbatim>\<open>str\<close> is modelled as a \<^typ>\<open>string\<close> whose characters are the code points
  below 256. A Python \<^verbatim>\<open>dict\<close> with string keys is an association list in insertion
  order; the assignment \<^verbatim>\<open>d[k] = v\<close> is \<^const>\<open>AList.update\<close>, which overwrites an existing
  key in place and appends a new one, as Python does. JSON numbers are restricted to
  integers.
\<close>

datatype json =
    JNull
  | JBool bool
  | JNum int
  | JStr string
  | JArr "json list"
  | JObj "(string \<times> json) list"

type_synonym json_dict = "(string \<times> json) list"

text \<open>
  An exception raised by a library call. \<open>Exception m\<close> is an instance of (a subclass
  of) Python's \<^verbatim>\<open>Exception\<close> with \<^verbatim>\<open>str(e) = m\<close>: every transport error of the HTTP
  library and every JSON decoding error is one. \<open>BaseException m\<close> is an instance of
  \<^verbatim>\<open>BaseException\<close> outside \<^verbatim>\<open>Exception\<close> (a task cancellation, a keyboard interrupt),
  which the handler \<^verbatim>\<open>except Exception\<close> does not catch.
\<close>

datatype py_raise = Exception string | BaseException string

text \<open>An HTTP request as handed to \<^verbatim>\<open>self.client.post\<close>: the target, the \<^verbatim>\<open>json=\<close> body and
  the \<^verbatim>\<open>headers=\<close> dictionary.\<close>

record http_request =
  url :: string
  body :: json_dict
  req_headers :: "(string \<times> string) list"

text \<open>
  An HTTP response as the library presents it: \<open>headers\<close> is the case-insensitive
  header mapping with the field names in lower case, \<open>resp_text\<close> the decoded body
  (\<^verbatim>\<open>response.text\<close>) and
  \<open>json_body\<close> what \<^verbatim>\<open>response.json()\<close> does: \<open>Inl m\<close> when decoding raises an
  \<^verbatim>\<open>Exception\<close> with message \<open>m\<close>, \<open>Inr v\<close> when it returns \<open>v\<close>.
\<close>

record http_response =
  status_code :: int
  headers :: "(string \<times> string) list"
  resp_text :: string
  json_body :: "string + json"

text \<open>What \<^verbatim>\<open>await self.client.post(...)\<close> does: it raises or it returns a response.\<close>

datatype post_outcome = Raises py_raise | Responds http_response

subsection \<open>Formatting an integer as \<^verbatim>\<open>f"{n}"\<close> does\<close>

fun str_nat :: "nat \<Rightarrow> string" where
  "str_nat n =
     (if n < 10 then [''0123456789'' ! n]
      else str_nat (n div 10) @ [''0123456789'' ! (n mod 10)])"

declare str_nat.simps [simp del]

definition str_int :: "int \<Rightarrow> string" where
  "str_int i = (if i < 0 then ''-'' @ str_nat (nat (- i)) else str_nat (nat i))"

section \<open>The request/response client: \<^verbatim>\<open>MCPClient\<close>\<close>

text \<open>The fields of \<^verbatim>\<open>MCPClient\<close> that the methods read or write; the HTTP client object
  is the environment.\<close>

record MCPClient =
  server_url :: string
  session_id :: "string option"

definition MCPClient_init :: "string \<Rightarrow> MCPClient" where
  "MCPClient_init u = \<lparr>server_url = u, session_id = None\<rparr>"

text \<open>
  Lines 30 to 37 of \<^verbatim>\<open>send_request\<close>: the envelope. \<^verbatim>\<open>if params:\<close> is Python truthiness:
  false for \<^verbatim>\<open>None\<close> and for the empty dictionary.
\<close>

definition request_data :: "string \<Rightarrow> json_dict option \<Rightarrow> json_dict" where
  "request_data method params =
     (let request_data = [(''jsonrpc'', JStr ''2.0''), (''id'', JNum 1), (''method'', JStr method)]
      in case params of
           None \<Rightarrow> request_data
         | Some p \<Rightarrow> if p \<noteq> [] then AList.update ''params'' (JObj p) request_data
                     else request_data)"

text \<open>
  Lines 39 to 45: the headers. \<^verbatim>\<open>if self.session_id:\<close> is truthiness again: false for
  \<^verbatim>\<open>None\<close> and for the empty string.
\<close>

definition request_headers :: "MCPClient \<Rightarrow> (string \<times> string) list" where
  "request_headers self =
     (let headers = [(''Content-Type'', ''application/json''), (''Accept'', ''application/json'')]
      in case session_id self of
           None \<Rightarrow> headers
         | Some s \<Rightarrow> if s \<noteq> [] then AList.update ''mcp-session-id'' s headers else headers)"

text \<open>
  Lines 50 to 71, the body of the \<^verbatim>\<open>try\<close>: the client after it and either the exception it
  raised or the value it returned. The session header is read before the status.
\<close>

definition try_block :: "MCPClient \<Rightarrow> post_outcome \<Rightarrow> MCPClient \<times> (py_raise + json)" where
  "try_block self outcome =
     (case outcome of
        Raises e \<Rightarrow> (self, Inl e)
      | Responds response \<Rightarrow>
          (let self' = (case map_of (headers response) ''mcp-session-id'' of
                          Some s \<Rightarrow> self\<lparr>session_id := Some s\<rparr>
                        | None \<Rightarrow> self)
           in if status_code response = 200
              then (case json_body response of
                      Inl m \<Rightarrow> (self', Inl (Exception m))
                    | Inr response_data \<Rightarrow> (self', Inr response_data))
              else (self', Inr (JObj [(''error'',
                      JStr (''HTTP '' @ str_int (status_code response) @ '': '' @ resp_text response))]))))"

text \<open>
  \<^verbatim>\<open>send_request\<close>: the request handed to the library, the client afterwards, and the
  result: \<open>Inr v\<close> when \<open>v\<close> is returned, \<open>Inl e\<close> when \<open>e\<close> reaches the caller.
  \<^verbatim>\<open>except Exception as e\<close> turns an \<open>Exception m\<close> into \<^verbatim>\<open>{"error": str(e)}\<close>.
\<close>

definition send_request ::
  "MCPClient \<Rightarrow> string \<Rightarrow> json_dict option \<Rightarrow> post_outcome
     \<Rightarrow> http_request \<times> MCPClient \<times> (py_raise + json)" where
  "send_request self method params outcome =
     (let request = \<lparr>url = server_url self, body = request_data method params,
                     req_headers = request_headers self\<rparr>;
          (self', r) = try_block self outcome
      in case r of
           Inl (Exception m) \<Rightarrow> (request, self', Inr (JObj [(''error'', JStr m)]))
         | Inl (BaseException m) \<Rightarrow> (request, self', Inl (BaseException m))
         | Inr v \<Rightarrow> (request, self', Inr v))"

definition initialize ::
  "MCPClient \<Rightarrow> post_outcome \<Rightarrow> http_request \<times> MCPClient \<times> (py_raise + json)" where
  "initialize self outcome =
     send_request self ''initialize''
       (Some [(''protocolVersion'', JStr ''2024-11-05''),
              (''capabilities'', JObj [(''tools'', JObj [])]),
              (''clientInfo'', JObj [(''name'', JStr ''test-mcp-client''),
                                     (''version'', JStr ''1.0.0'')])])
       outcome"

definition list_tools ::
  "MCPClient \<Rightarrow> post_outcome \<Rightarrow> http_request \<times> MCPClient \<times> (py_raise + json)" where
  "list_tools self outcome = send_request self ''tools/list'' None outcome"

text \<open>Lines 96 to 98 of \<^verbatim>\<open>call_tool\<close>: the parameters; \<^verbatim>\<open>if arguments:\<close> is truthiness.\<close>

definition call_tool_params :: "string \<Rightarrow> json_dict option \<Rightarrow> json_dict" where
  "call_tool_params tool_name arguments =
     (let params = [(''name'', JStr tool_name)]
      in case arguments of
           None \<Rightarrow> params
         | Some a \<Rightarrow> if a \<noteq> [] then AList.update ''arguments'' (JObj a) params else params)"

definition call_tool ::
  "MCPClient \<Rightarrow> string \<Rightarrow> json_dict option \<Rightarrow> post_outcome
     \<Rightarrow> http_request \<times> MCPClient \<times> (py_raise + json)" where
  "call_tool self tool_name arguments outcome =
     send_request self ''tools/call'' (Some (call_tool_params tool_name arguments)) outcome"

subsection \<open>A caller driving one client instance\<close>

text \<open>
  The three public operations, and a caller that performs a sequence of them on one
  client instance. Each step pairs the operation with what the HTTP library does on
  that call. A caller that catches an exception reaching it keeps using the same
  instance, so the client is passed on in every case.
\<close>

datatype operation = Initialize | List_tools | Call_tool string "json_dict option"

fun perform ::
  "MCPClient \<Rightarrow> operation \<Rightarrow> post_outcome \<Rightarrow> http_request \<times> MCPClient \<times> (py_raise + json)" where
  "perform self Initialize outcome = initialize self outcome"
| "perform self List_tools outcome = list_tools self outcome"
| "perform self (Call_tool tool_name arguments) outcome = call_tool self tool_name arguments outcome"

fun client_after :: "MCPClient \<Rightarrow> (operation \<times> post_outcome) list \<Rightarrow> MCPClient" where
  "client_after self [] = self"
| "client_after self ((operation, outcome) # steps) =
     client_after (fst (snd (perform self operation outcome))) steps"

fun requests_sent :: "MCPClient \<Rightarrow> (operation \<times> post_outcome) list \<Rightarrow> http_request list" where
  "requests_sent self [] = []"
| "requests_sent self ((operation, outcome) # steps) =
     fst (perform self operation outcome)
       # requests_sent (fst (snd (perform self operation outcome))) steps"

text \<open>The session header a response carries, if the call returned a response that has one.\<close>

definition carried_session :: "post_outcome \<Rightarrow> string option" where
  "carried_session outcome =
     (case outcome of
        Raises e \<Rightarrow> None
      | Responds response \<Rightarrow> map_of (headers response) ''mcp-session-id'')"

text \<open>The session header of an outgoing request, if it has one.\<close>

definition sent_session :: "http_request \<Rightarrow> string option" where
  "sent_session request = map_of (req_headers request) ''mcp-session-id''"

text \<open>The most recent session header among a sequence of outcomes, starting from \<open>sid\<close>.\<close>

fun latest_session :: "string option \<Rightarrow> post_outcome list \<Rightarrow> string option" where
  "latest_session sid [] = sid"
| "latest_session sid (outcome # outcomes) =
     latest_session (case carried_session outcome of None \<Rightarrow> sid | Some s \<Rightarrow> Some s) outcomes"

section \<open>The event-stream client: \<^verbatim>\<open>MCPSSEClient\<close>\<close>

record MCPSSEClient =
  sse_server_url :: string

text \<open>
  \<^verbatim>\<open>str.isspace\<close> on the code points below 256, and \<^verbatim>\<open>str.strip()\<close> with no argument.
\<close>

definition py_isspace :: "char \<Rightarrow> bool" where
  "py_isspace c =
     (let n = (of_char c :: nat)
      in (9 \<le> n \<and> n \<le> 13) \<or> (28 \<le> n \<and> n \<le> 32) \<or> n = 133 \<or> n = 160)"

definition strip :: "string \<Rightarrow> string" where
  "strip s = rev (dropWhile py_isspace (rev (dropWhile py_isspace s)))"

text \<open>
  How an open stream ends: the server closes it, or the library raises while the next
  line is awaited. What \<^verbatim>\<open>self.client.stream("GET", ...)\<close> does: it raises on entry, or it
  gives a response with a status, headers and the lines \<^verbatim>\<open>response.aiter_lines()\<close>
  delivers before the stream ends.
\<close>

datatype stream_end = Closed | Dropped py_raise

datatype stream_outcome =
    Connect_raises py_raise
  | Streams (sse_status: int) (sse_headers: "(string \<times> string) list")
      (sse_lines: "string list") (sse_end: stream_end)

text \<open>How a generator stops: it is exhausted (it returned), or an exception leaves it and
  reaches the consumer.\<close>

datatype gen_exit = StopAsyncIteration | Propagates py_raise

text \<open>Lines 44 to 47: the \<^verbatim>\<open>async for\<close> loop, with the lines it yields.\<close>

fun aiter_loop :: "string list \<Rightarrow> stream_end \<Rightarrow> string list \<times> gen_exit" where
  "aiter_loop [] Closed = ([], StopAsyncIteration)"
| "aiter_loop [] (Dropped e) = ([], Propagates e)"
| "aiter_loop (line # lines) ending =
     (let (yielded, exit) = aiter_loop lines ending
      in if strip line \<noteq> [] then (line # yielded, exit) else (yielded, exit))"

text \<open>\<^verbatim>\<open>connect_sse\<close>: the events yielded to a consumer that reads to the end, and how the
  sequence stops.\<close>

definition connect_sse :: "MCPSSEClient \<Rightarrow> stream_outcome \<Rightarrow> string list \<times> gen_exit" where
  "connect_sse self outcome =
     (case outcome of
        Connect_raises e \<Rightarrow> ([], Propagates e)
      | Streams status hs lines ending \<Rightarrow>
          if status \<noteq> 200 then ([], StopAsyncIteration)
          else aiter_loop lines ending)"

text \<open>Lines 51 to 58 of \<^verbatim>\<open>send_mcp_request\<close>: the envelope of the side channel.\<close>

definition mcp_request_data :: "string \<Rightarrow> json_dict option \<Rightarrow> json_dict" where
  "mcp_request_data method params =
     (let request_data = [(''jsonrpc'', JStr ''2.0''), (''id'', JNum 1), (''method'', JStr method)]
      in case params of
           None \<Rightarrow> request_data
         | Some p \<Rightarrow> if p \<noteq> [] then AList.update ''params'' (JObj p) request_data
                     else request_data)"

text \<open>
  \<^verbatim>\<open>send_mcp_request\<close>: the request handed to the library and what reaches the caller:
  \<open>None\<close> when the method returns (it returns nothing), \<open>Some e\<close> when \<open>e\<close> escapes
  \<^verbatim>\<open>except Exception\<close>.
\<close>

definition send_mcp_request ::
  "MCPSSEClient \<Rightarrow> string \<Rightarrow> json_dict option \<Rightarrow> post_outcome
     \<Rightarrow> http_request \<times> py_raise option" where
  "send_mcp_request self method params outcome =
     (let request = \<lparr>url = sse_server_url self, body = mcp_request_data method params,
                     req_headers = [(''Content-Type'', ''application/json'')]\<rparr>
      in case outcome of
           Raises (Exception m) \<Rightarrow> (request, None)
         | Raises (BaseException m) \<Rightarrow> (request, Some (BaseException m))
         | Responds response \<Rightarrow> (request, None))"

subsection \<open>The line decoder of the HTTP library\<close>

text \<open>
  \<^verbatim>\<open>response.aiter_lines()\<close> belongs to the HTTP library. For a body that is received
  whole it delivers what \<^verbatim>\<open>str.splitlines()\<close> gives on the decoded text: the text is cut
  at every line boundary (\<^verbatim>\<open>\r\n\<close> counting as one), the boundaries are dropped, and
  a last line without a boundary is delivered too. The boundaries below code point 256
  are 10 to 13, 28 to 30 and 133.
\<close>

definition line_boundary :: "char \<Rightarrow> bool" where
  "line_boundary c =
     (let n = (of_char c :: nat)
      in (10 \<le> n \<and> n \<le> 13) \<or> (28 \<le> n \<and> n \<le> 30) \<or> n = 133)"

fun splitlines_from :: "string \<Rightarrow> string \<Rightarrow> string list" where
  "splitlines_from cur [] = (if cur = [] then [] else [rev cur])"
| "splitlines_from cur [c] =
     (if line_boundary c then [rev cur] else [rev (c # cur)])"
| "splitlines_from cur (c # d # cs) =
     (if c = CHR 0x0D \<and> d = CHR 0x0A then rev cur # splitlines_from [] cs
      else if line_boundary c then rev cur # splitlines_from [] (d # cs)
      else splitlines_from (c # cur) (d # cs))"

definition aiter_lines :: "string \<Rightarrow> string list" where
  "aiter_lines body_text = splitlines_from [] body_text"

section \<open>Properties of the request/response client\<close>

subsection \<open>What one call sends, stores and returns\<close>

lemma send_request_fst:
  "fst (send_request self method params outcome) =
     \<lparr>url = server_url self, body = request_data method params,
      req_headers = request_headers self\<rparr>"
  by (simp add: send_request_def Let_def split: prod.splits sum.splits py_raise.splits)

lemma send_request_client:
  "fst (snd (send_request self method params outcome)) = fst (try_block self outcome)"
  by (simp add: send_request_def Let_def split: prod.splits sum.splits py_raise.splits)

lemma send_request_result:
  "snd (snd (send_request self method params outcome)) =
     (case snd (try_block self outcome) of
        Inl (Exception m) \<Rightarrow> Inr (JObj [(''error'', JStr m)])
      | Inl (BaseException m) \<Rightarrow> Inl (BaseException m)
      | Inr v \<Rightarrow> Inr v)"
  by (simp add: send_request_def Let_def split: prod.splits sum.splits py_raise.splits)

lemma try_block_session:
  "session_id (fst (try_block self outcome)) =
     (case carried_session outcome of None \<Rightarrow> session_id self | Some s \<Rightarrow> Some s)"
  by (simp add: try_block_def carried_session_def Let_def
      split: post_outcome.splits option.splits sum.splits)

lemma perform_request:
  "\<exists>method params. fst (perform self operation outcome) =
     \<lparr>url = server_url self, body = request_data method params,
      req_headers = request_headers self\<rparr>"
  by (cases operation) (auto simp: initialize_def list_tools_def call_tool_def send_request_fst)

lemma perform_req_headers:
  "req_headers (fst (perform self operation outcome)) = request_headers self"
  by (cases operation) (simp_all add: initialize_def list_tools_def call_tool_def send_request_fst)

lemma perform_client:
  "fst (snd (perform self operation outcome)) = fst (try_block self outcome)"
  by (cases operation) (simp_all add: initialize_def list_tools_def call_tool_def send_request_client)

lemma perform_result:
  "snd (snd (perform self operation outcome)) =
     (case snd (try_block self outcome) of
        Inl (Exception m) \<Rightarrow> Inr (JObj [(''error'', JStr m)])
      | Inl (BaseException m) \<Rightarrow> Inl (BaseException m)
      | Inr v \<Rightarrow> Inr v)"
  by (cases operation) (simp_all add: initialize_def list_tools_def call_tool_def send_request_result)

lemma sent_session_request_headers:
  "map_of (request_headers self) ''mcp-session-id'' =
     (case session_id self of None \<Rightarrow> None | Some s \<Rightarrow> if s \<noteq> [] then Some s else None)"
  by (simp add: request_headers_def Let_def split: option.splits)

lemma client_after_session:
  "session_id (client_after self steps) = latest_session (session_id self) (map snd steps)"
proof (induction steps arbitrary: self)
  case Nil
  show ?case by simp
next
  case (Cons step steps)
  obtain operation outcome where step: "step = (operation, outcome)"
    by (cases step)
  show ?case
    by (simp add: step Cons.IH perform_client try_block_session)
qed

lemma requests_sent_length: "length (requests_sent self steps) = length steps"
  by (induction steps arbitrary: self) auto

lemma requests_sent_nth:
  "j < length steps \<Longrightarrow>
   requests_sent self steps ! j =
     fst (perform (client_after self (take j steps)) (fst (steps ! j)) (snd (steps ! j)))"
proof (induction steps arbitrary: self j)
  case Nil
  then show ?case by simp
next
  case (Cons step steps)
  obtain operation outcome where step: "step = (operation, outcome)"
    by (cases step)
  show ?case
  proof (cases j)
    case 0
    then show ?thesis by (simp add: step)
  next
    case (Suc j')
    with Cons.prems have "j' < length steps" by simp
    from Cons.IH [OF this] show ?thesis by (simp add: step Suc)
  qed
qed

lemma latest_session_silent:
  "\<forall>outcome \<in> set outcomes. carried_session outcome = None \<Longrightarrow>
   latest_session sid outcomes = sid"
  by (induction outcomes arbitrary: sid) simp_all

lemma latest_session_append:
  "latest_session sid (xs @ ys) = latest_session (latest_session sid xs) ys"
  by (induction xs arbitrary: sid) simp_all

lemma latest_session_split:
  assumes "carried_session outcome = Some s"
    and "\<forall>later \<in> set after. carried_session later = None"
  shows "latest_session sid (before @ outcome # after) = Some s"
  using assms by (simp add: latest_session_append latest_session_silent)

lemma sent_session_nth:
  assumes "j < length steps"
  shows "sent_session (requests_sent self steps ! j) =
     (case latest_session (session_id self) (map snd (take j steps)) of
        None \<Rightarrow> None
      | Some s \<Rightarrow> if s \<noteq> [] then Some s else None)"
  using assms
  by (simp add: sent_session_def requests_sent_nth perform_req_headers
      sent_session_request_headers client_after_session)

lemma latest_session_between:
  assumes "i < j" and "j \<le> length steps"
    and "carried_session (snd (steps ! i)) = Some s"
    and "\<forall>k. i < k \<and> k < j \<longrightarrow> carried_session (snd (steps ! k)) = None"
  shows "latest_session sid (map snd (take j steps)) = Some s"
proof -
  define os where "os = map snd (take j steps)"
  have len: "length os = j" using assms(2) by (simp add: os_def)
  have i: "i < length os" using assms(1) len by simp
  have split: "os = take i os @ os ! i # drop (Suc i) os"
    using i by (rule id_take_nth_drop)
  have at: "os ! i = snd (steps ! i)" using assms(1,2) by (simp add: os_def)
  have after: "\<forall>later \<in> set (drop (Suc i) os). carried_session later = None"
  proof
    fix later assume "later \<in> set (drop (Suc i) os)"
    then obtain n where n: "n < length (drop (Suc i) os)" "later = drop (Suc i) os ! n"
      by (auto simp: in_set_conv_nth)
    then have bound: "Suc i + n < j" using len by simp
    have "later = os ! (Suc i + n)" using n bound len by simp
    also have "\<dots> = snd (steps ! (Suc i + n))"
      using bound assms(2) by (simp add: os_def)
    finally show "carried_session later = None" using assms(4) bound by simp
  qed
  have "latest_session sid (take i os @ os ! i # drop (Suc i) os) = Some s"
    using assms(3) at after by (intro latest_session_split) simp_all
  with split show ?thesis by (simp add: os_def)
qed

lemma latest_session_kept:
  "sid \<noteq> None \<Longrightarrow> latest_session sid outcomes \<noteq> None"
  by (induction outcomes arbitrary: sid) (auto split: option.splits)

lemma try_block_not_200:
  "status_code response \<noteq> 200 \<Longrightarrow>
   snd (try_block self (Responds response)) =
     Inr (JObj [(''error'',
       JStr (''HTTP '' @ str_int (status_code response) @ '': '' @ resp_text response))])"
  by (simp add: try_block_def Let_def)

lemma send_mcp_request_fst:
  "fst (send_mcp_request self method params outcome) =
     \<lparr>url = sse_server_url self, body = mcp_request_data method params,
      req_headers = [(''Content-Type'', ''application/json'')]\<rparr>"
  by (simp add: send_mcp_request_def Let_def split: post_outcome.splits py_raise.splits)

lemma sent_session_silent_run:
  assumes "j < length steps"
    and "\<forall>k. k < j \<longrightarrow> carried_session (snd (steps ! k)) = None"
  shows "sent_session (requests_sent self steps ! j) =
     (case session_id self of None \<Rightarrow> None | Some s \<Rightarrow> if s \<noteq> [] then Some s else None)"
proof -
  have "\<forall>outcome \<in> set (map snd (take j steps)). carried_session outcome = None"
  proof
    fix outcome assume "outcome \<in> set (map snd (take j steps))"
    then obtain k where "k < length (map snd (take j steps))"
      and "outcome = map snd (take j steps) ! k"
      by (auto simp: in_set_conv_nth)
    then have "k < j" and "outcome = snd (steps ! k)"
      using assms(1) by simp_all
    then show "carried_session outcome = None" using assms(2) by simp
  qed
  then have "latest_session (session_id self) (map snd (take j steps)) = session_id self"
    by (rule latest_session_silent)
  then show ?thesis using assms(1) by (simp add: sent_session_nth)
qed

subsection \<open>C1\<close>

text \<open>
  Claim C1, as the code has it. Across every sequence of \<^verbatim>\<open>initialize\<close>, \<^verbatim>\<open>list_tools\<close> and
  \<^verbatim>\<open>call_tool\<close> on one client instance, an outgoing request carries as its
  \<^verbatim>\<open>mcp-session-id\<close> header, unchanged, the value of the most recent earlier response
  that carried that header, whenever that value is not the empty string.
\<close>

theorem session_header_echoed:
  assumes "i < j" and "j < length steps"
    and "carried_session (snd (steps ! i)) = Some s" and "s \<noteq> []"
    and "\<forall>k. i < k \<and> k < j \<longrightarrow> carried_session (snd (steps ! k)) = None"
  shows "sent_session (requests_sent self steps ! j) = Some s"
proof -
  have "latest_session (session_id self) (map snd (take j steps)) = Some s"
    using assms(1,2,3,5) by (intro latest_session_between) simp_all
  then show ?thesis
    using assms(2,4) by (simp add: sent_session_nth)
qed

text \<open>
  The hypotheses hold together on a run of three calls: the first response carries
  \<open>abc\<close>, the second call times out, and the third request sends \<open>abc\<close>.
\<close>

theorem session_header_echoed_witness:
  "(0::nat) < 2
   \<and> 2 < length [(Initialize, Responds \<lparr>status_code = 200, headers = [(''mcp-session-id'', ''abc'')],
                     resp_text = ''{}'', json_body = Inr (JObj [])\<rparr>),
                  (List_tools, Raises (Exception ''timed out'')),
                  (Call_tool ''get_balance'' None, Raises (Exception ''timed out''))]
   \<and> carried_session (Responds \<lparr>status_code = 200, headers = [(''mcp-session-id'', ''abc'')],
                     resp_text = ''{}'', json_body = Inr (JObj [])\<rparr>) = Some ''abc''
   \<and> carried_session (Raises (Exception ''timed out'')) = None
   \<and> sent_session (requests_sent (MCPClient_init ''https://mcp.penguinbank.cloud'')
        [(Initialize, Responds \<lparr>status_code = 200, headers = [(''mcp-session-id'', ''abc'')],
                     resp_text = ''{}'', json_body = Inr (JObj [])\<rparr>),
         (List_tools, Raises (Exception ''timed out'')),
         (Call_tool ''get_balance'' None, Raises (Exception ''timed out''))] ! 2) = Some ''abc''"
proof -
  let ?r = "\<lparr>status_code = 200, headers = [(''mcp-session-id'', ''abc'')],
              resp_text = ''{}'', json_body = Inr (JObj [])\<rparr>"
  let ?steps = "[(Initialize, Responds ?r),
                 (List_tools, Raises (Exception ''timed out'')),
                 (Call_tool ''get_balance'' None, Raises (Exception ''timed out''))]"
  have order: "(0::nat) < 2" by simp
  have len: "2 < length ?steps" by simp
  have first: "carried_session (snd (?steps ! 0)) = Some ''abc''"
    by (simp add: carried_session_def)
  have nonempty: "''abc'' \<noteq> []" by simp
  have silent: "carried_session (Raises (Exception ''timed out'')) = None"
    by (simp add: carried_session_def)
  have between: "\<forall>k. 0 < k \<and> k < 2 \<longrightarrow> carried_session (snd (?steps ! k)) = None"
  proof (intro allI impI)
    fix k :: nat assume "0 < k \<and> k < 2"
    then have "k = 1" by arith
    then show "carried_session (snd (?steps ! k)) = None"
      by (simp add: carried_session_def)
  qed
  from session_header_echoed [OF order len first nonempty between]
  show ?thesis using first silent by simp
qed

text \<open>
  Claim C1 as worded (once a response has carried the header, every later request
  includes that identifier) fails on the code in two ways. A later response with another
  value replaces the stored one: after \<open>A\<close> and then \<open>B\<close> the third request sends
  \<open>B\<close>. And a header with an empty value is stored but never sent, because
  \<^verbatim>\<open>if self.session_id:\<close> is false for the empty string.
\<close>

theorem session_header_echoed_counterexample:
  "carried_session (Responds \<lparr>status_code = 200, headers = [(''mcp-session-id'', ''A'')],
       resp_text = ''{}'', json_body = Inr (JObj [])\<rparr>) = Some ''A''
   \<and> sent_session (requests_sent (MCPClient_init ''https://mcp.penguinbank.cloud'')
        [(Initialize, Responds \<lparr>status_code = 200, headers = [(''mcp-session-id'', ''A'')],
            resp_text = ''{}'', json_body = Inr (JObj [])\<rparr>),
         (List_tools, Responds \<lparr>status_code = 200, headers = [(''mcp-session-id'', ''B'')],
            resp_text = ''{}'', json_body = Inr (JObj [])\<rparr>),
         (List_tools, Responds \<lparr>status_code = 200, headers = [],
            resp_text = ''{}'', json_body = Inr (JObj [])\<rparr>)] ! 2) = Some ''B''
   \<and> carried_session (Responds \<lparr>status_code = 200, headers = [(''mcp-session-id'', '''')],
       resp_text = ''{}'', json_body = Inr (JObj [])\<rparr>) = Some ''''
   \<and> sent_session (requests_sent (MCPClient_init ''https://mcp.penguinbank.cloud'')
        [(Initialize, Responds \<lparr>status_code = 200, headers = [(''mcp-session-id'', '''')],
            resp_text = ''{}'', json_body = Inr (JObj [])\<rparr>),
         (List_tools, Responds \<lparr>status_code = 200, headers = [],
            resp_text = ''{}'', json_body = Inr (JObj [])\<rparr>)] ! 1) = None"
  by code_simp

subsection \<open>C2\<close>

text \<open>
  Claim C2, as the code has it. The session handle is absent at construction; every
  response that carries the session header assigns it (line 62 has no guard on an earlier
  value), so after any sequence of calls it is the value of the most recent such
  response; and once set it is never absent again.
\<close>

theorem session_handle_lifecycle:
  "session_id (MCPClient_init u) = None
   \<and> session_id (fst (snd (perform self operation outcome))) =
       (case carried_session outcome of None \<Rightarrow> session_id self | Some s \<Rightarrow> Some s)
   \<and> session_id (client_after self steps) = latest_session (session_id self) (map snd steps)
   \<and> (session_id self \<noteq> None \<longrightarrow> session_id (client_after self steps) \<noteq> None)"
  by (simp add: MCPClient_init_def perform_client try_block_session client_after_session
      latest_session_kept)

text \<open>
  A client that holds a handle still holds one after a call that times out.
\<close>

theorem session_handle_lifecycle_witness:
  "session_id \<lparr>server_url = ''https://mcp.penguinbank.cloud'', session_id = Some ''A''\<rparr> \<noteq> None
   \<and> session_id (client_after
         \<lparr>server_url = ''https://mcp.penguinbank.cloud'', session_id = Some ''A''\<rparr>
         [(List_tools, Raises (Exception ''timed out''))]) \<noteq> None"
  using session_handle_lifecycle
    [of "''u''" "\<lparr>server_url = ''https://mcp.penguinbank.cloud'', session_id = Some ''A''\<rparr>"
        List_tools "Raises (Exception ''timed out'')"
        "[(List_tools, Raises (Exception ''timed out''))]"]
  by (simp add: carried_session_def)

text \<open>
  Claim C2 as worded (set at most once, never reassigned even if a later response
  carries a different header) fails on the code: after a response carrying \<open>A\<close> the
  handle is \<open>A\<close>, and after a second response carrying \<open>B\<close> it is \<open>B\<close>.
\<close>

theorem session_handle_set_once_counterexample:
  "session_id (client_after (MCPClient_init ''https://mcp.penguinbank.cloud'')
      [(Initialize, Responds \<lparr>status_code = 200, headers = [(''mcp-session-id'', ''A'')],
          resp_text = ''{}'', json_body = Inr (JObj [])\<rparr>)]) = Some ''A''
   \<and> session_id (client_after (MCPClient_init ''https://mcp.penguinbank.cloud'')
      [(Initialize, Responds \<lparr>status_code = 200, headers = [(''mcp-session-id'', ''A'')],
          resp_text = ''{}'', json_body = Inr (JObj [])\<rparr>),
       (List_tools, Responds \<lparr>status_code = 200, headers = [(''mcp-session-id'', ''B'')],
          resp_text = ''{}'', json_body = Inr (JObj [])\<rparr>)]) = Some ''B''"
  by code_simp

subsection \<open>C10\<close>

text \<open>
  Claim C10, as the code has it. The session header is read before the status is
  checked: a response with a status other than 200 that carries the header makes the
  call return the error-shaped result and stores the header's value as the session
  handle; that value, when it is not the empty string, is sent on every later request
  up to the next response that carries the header.
\<close>

theorem error_response_updates_session:
  assumes "status_code response \<noteq> 200"
    and "map_of (headers response) ''mcp-session-id'' = Some s"
  shows "session_id (fst (snd (perform self operation (Responds response)))) = Some s
   \<and> snd (snd (perform self operation (Responds response))) =
       Inr (JObj [(''error'',
         JStr (''HTTP '' @ str_int (status_code response) @ '': '' @ resp_text response))])
   \<and> (s \<noteq> [] \<and> j < length steps
        \<and> (\<forall>k. k < j \<longrightarrow> carried_session (snd (steps ! k)) = None) \<longrightarrow>
      sent_session (requests_sent (fst (snd (perform self operation (Responds response)))) steps ! j)
        = Some s)"
proof -
  let ?after = "fst (snd (perform self operation (Responds response)))"
  have updated: "session_id ?after = Some s"
    using assms(2) by (simp add: perform_client try_block_session carried_session_def)
  have result: "snd (snd (perform self operation (Responds response))) =
       Inr (JObj [(''error'',
         JStr (''HTTP '' @ str_int (status_code response) @ '': '' @ resp_text response))])"
    using assms(1) by (simp add: perform_result try_block_not_200)
  have echoed: "sent_session (requests_sent ?after steps ! j) = Some s"
    if "s \<noteq> []" and "j < length steps"
      and "\<forall>k. k < j \<longrightarrow> carried_session (snd (steps ! k)) = None"
    using sent_session_silent_run [OF that(2,3), of ?after] updated that(1) by simp
  from updated result echoed show ?thesis by blast
qed

text \<open>
  A 500 answer carrying \<open>abc\<close> stores it, and after a further call that times out
  the next request still sends it.
\<close>

theorem error_response_updates_session_witness:
  "(500::int) \<noteq> 200
   \<and> map_of [(''mcp-session-id'', ''abc'')] ''mcp-session-id'' = Some ''abc''
   \<and> ''abc'' \<noteq> []
   \<and> (1::nat) < length [(List_tools, Raises (Exception ''timed out'')),
                         (Call_tool ''get_balance'' None, Raises (Exception ''timed out''))]
   \<and> carried_session (Raises (Exception ''timed out'')) = None
   \<and> session_id (fst (snd (perform (MCPClient_init ''https://mcp.penguinbank.cloud'') Initialize
        (Responds \<lparr>status_code = 500, headers = [(''mcp-session-id'', ''abc'')],
                    resp_text = ''Internal Server Error'', json_body = Inl ''Expecting value''\<rparr>))))
       = Some ''abc''
   \<and> sent_session (requests_sent
        (fst (snd (perform (MCPClient_init ''https://mcp.penguinbank.cloud'') Initialize
           (Responds \<lparr>status_code = 500, headers = [(''mcp-session-id'', ''abc'')],
                       resp_text = ''Internal Server Error'', json_body = Inl ''Expecting value''\<rparr>))))
        [(List_tools, Raises (Exception ''timed out'')),
         (Call_tool ''get_balance'' None, Raises (Exception ''timed out''))] ! 1) = Some ''abc''"
proof -
  let ?response = "\<lparr>status_code = 500, headers = [(''mcp-session-id'', ''abc'')],
                    resp_text = ''Internal Server Error'', json_body = Inl ''Expecting value''\<rparr>"
  let ?steps = "[(List_tools, Raises (Exception ''timed out'')),
                 (Call_tool ''get_balance'' None, Raises (Exception ''timed out''))]"
  have status: "status_code ?response \<noteq> 200" by simp
  have carried: "map_of (headers ?response) ''mcp-session-id'' = Some ''abc''" by simp
  have silent: "carried_session (Raises (Exception ''timed out'')) = None"
    by (simp add: carried_session_def)
  have before: "\<forall>k. k < 1 \<longrightarrow> carried_session (snd (?steps ! k)) = None"
    by (simp add: carried_session_def)
  from error_response_updates_session [OF status carried,
      of "MCPClient_init ''https://mcp.penguinbank.cloud''" Initialize 1 ?steps]
  show ?thesis using before silent by simp
qed

text \<open>
  Claim C10 as worded (the new value is sent on all subsequent requests) fails on the
  code: a 500 answer whose session header is empty stores the empty string, and the
  next request carries no session header.
\<close>

theorem error_response_empty_session_counterexample:
  "session_id (fst (snd (perform (MCPClient_init ''https://mcp.penguinbank.cloud'') Initialize
      (Responds \<lparr>status_code = 500, headers = [(''mcp-session-id'', '''')],
                  resp_text = ''Internal Server Error'', json_body = Inl ''Expecting value''\<rparr>))))
     = Some ''''
   \<and> sent_session (fst (perform
        (fst (snd (perform (MCPClient_init ''https://mcp.penguinbank.cloud'') Initialize
           (Responds \<lparr>status_code = 500, headers = [(''mcp-session-id'', '''')],
                       resp_text = ''Internal Server Error'', json_body = Inl ''Expecting value''\<rparr>))))
        List_tools (Raises (Exception ''timed out'')))) = None"
  by code_simp

subsection \<open>C3\<close>

text \<open>
  Claim C3, as the code has it. For \<^verbatim>\<open>initialize\<close>, \<^verbatim>\<open>list_tools\<close> and \<^verbatim>\<open>call_tool\<close>
  alike, a transport failure (an \<^verbatim>\<open>Exception\<close> raised by the HTTP library) is not raised to
  the caller: the call returns the dictionary whose only key is \<^verbatim>\<open>error\<close>, holding the
  text of the exception, which may be empty. A status other than 200 returns the
  dictionary whose only key is \<^verbatim>\<open>error\<close>, holding \<^verbatim>\<open>HTTP <status>: <body>\<close>, which is
  never empty. Neither dictionary has a \<^verbatim>\<open>result\<close> key.
\<close>

theorem failure_gives_error_result:
  "snd (snd (perform self operation (Raises (Exception m)))) = Inr (JObj [(''error'', JStr m)])
   \<and> (status_code response \<noteq> 200 \<longrightarrow>
        snd (snd (perform self operation (Responds response))) =
          Inr (JObj [(''error'',
            JStr (''HTTP '' @ str_int (status_code response) @ '': '' @ resp_text response))])
        \<and> ''HTTP '' @ str_int (status_code response) @ '': '' @ resp_text response \<noteq> [])"
  by (simp add: perform_result try_block_not_200) (simp add: try_block_def)

text \<open>
  A 404 answer to \<^verbatim>\<open>initialize\<close> returns \<^verbatim>\<open>{"error": "HTTP 404: Not Found"}\<close>.
\<close>

theorem failure_gives_error_result_witness:
  "(404::int) \<noteq> 200
   \<and> snd (snd (perform (MCPClient_init ''https://mcp.penguinbank.cloud'') Initialize
        (Responds \<lparr>status_code = 404, headers = [], resp_text = ''Not Found'',
                    json_body = Inl ''Expecting value''\<rparr>))) =
       Inr (JObj [(''error'', JStr ''HTTP 404: Not Found'')])"
  using failure_gives_error_result
    [of "MCPClient_init ''https://mcp.penguinbank.cloud''" Initialize "''''"
        "\<lparr>status_code = 404, headers = [], resp_text = ''Not Found'',
          json_body = Inl ''Expecting value''\<rparr>"]
  by (simp add: str_int_def str_nat.simps)

text \<open>
  Claim C3 as worded (the \<^verbatim>\<open>error\<close> string is non-empty for every transport failure)
  fails on the code: the string is \<^verbatim>\<open>str(e)\<close>, and a transport exception whose text is
  empty, as the library's timeouts commonly are, gives \<^verbatim>\<open>{"error": ""}\<close>.
\<close>

theorem failure_empty_error_counterexample:
  "snd (snd (perform (MCPClient_init ''https://mcp.penguinbank.cloud'') Initialize
      (Raises (Exception '''')))) = Inr (JObj [(''error'', JStr '''')])"
  by code_simp

subsection \<open>C4\<close>

text \<open>
  Claim C4. \<^verbatim>\<open>call_tool(name)\<close> without arguments sends a request whose \<^verbatim>\<open>params\<close> is
  exactly \<^verbatim>\<open>{"name": name}\<close>, and \<^verbatim>\<open>call_tool(name, args)\<close> with a non-empty mapping
  sends \<^verbatim>\<open>params\<close> exactly \<^verbatim>\<open>{"name": name, "arguments": args}\<close>.
\<close>

theorem call_tool_params_exact:
  "map_of (body (fst (call_tool self tool_name None outcome))) ''params'' =
     Some (JObj [(''name'', JStr tool_name)])
   \<and> (arguments \<noteq> [] \<longrightarrow>
        map_of (body (fst (call_tool self tool_name (Some arguments) outcome))) ''params'' =
          Some (JObj [(''name'', JStr tool_name), (''arguments'', JObj arguments)]))"
  by (simp add: call_tool_def send_request_fst request_data_def call_tool_params_def)

text \<open>
  The spec's example: \<^verbatim>\<open>call_tool("x", {"a": 1})\<close>.
\<close>

theorem call_tool_params_exact_witness:
  "[(''a'', JNum 1)] \<noteq> []
   \<and> map_of (body (fst (call_tool (MCPClient_init ''https://mcp.penguinbank.cloud'') ''x''
        (Some [(''a'', JNum 1)]) (Raises (Exception ''timed out''))))) ''params'' =
       Some (JObj [(''name'', JStr ''x''), (''arguments'', JObj [(''a'', JNum 1)])])"
  using call_tool_params_exact
    [of "MCPClient_init ''https://mcp.penguinbank.cloud''" "''x''"
        "Raises (Exception ''timed out'')" "[(''a'', JNum 1)]"]
  by simp

subsection \<open>C9\<close>

text \<open>
  Claim C9. \<^verbatim>\<open>call_tool(name, {})\<close> behaves as \<^verbatim>\<open>call_tool(name)\<close>: the same request is
  sent, the same client state and result come back, and in both cases the parameters
  are \<^verbatim>\<open>{"name": name}\<close> with no \<^verbatim>\<open>arguments\<close> key.
\<close>

theorem call_tool_empty_arguments:
  "call_tool self tool_name (Some []) outcome = call_tool self tool_name None outcome
   \<and> call_tool_params tool_name (Some []) = [(''name'', JStr tool_name)]
   \<and> call_tool_params tool_name None = [(''name'', JStr tool_name)]"
  by (simp add: call_tool_def call_tool_params_def)

subsection \<open>C5\<close>

text \<open>
  Claim C5. Every request body of either client (\<^verbatim>\<open>send_request\<close> of the
  request/response client, \<^verbatim>\<open>send_mcp_request\<close> of the event-stream client) has
  \<^verbatim>\<open>jsonrpc\<close> equal to \<^verbatim>\<open>"2.0"\<close>, \<^verbatim>\<open>id\<close> equal to 1 and a \<^verbatim>\<open>method\<close> key, and has no
  \<^verbatim>\<open>params\<close> key at all when the parameters are not supplied or are the empty mapping.
\<close>

theorem jsonrpc_envelope:
  "map_of (body (fst (send_request self method params outcome))) ''jsonrpc'' = Some (JStr ''2.0'')
   \<and> map_of (body (fst (send_request self method params outcome))) ''id'' = Some (JNum 1)
   \<and> map_of (body (fst (send_request self method params outcome))) ''method'' = Some (JStr method)
   \<and> (params = None \<or> params = Some [] \<longrightarrow>
        ''params'' \<notin> fst ` set (body (fst (send_request self method params outcome))))
   \<and> map_of (body (fst (send_mcp_request sse method params outcome))) ''jsonrpc'' = Some (JStr ''2.0'')
   \<and> map_of (body (fst (send_mcp_request sse method params outcome))) ''id'' = Some (JNum 1)
   \<and> map_of (body (fst (send_mcp_request sse method params outcome))) ''method'' = Some (JStr method)
   \<and> (params = None \<or> params = Some [] \<longrightarrow>
        ''params'' \<notin> fst ` set (body (fst (send_mcp_request sse method params outcome))))"
  by (auto simp: send_request_fst send_mcp_request_fst request_data_def mcp_request_data_def
      Let_def split: option.splits)

text \<open>
  With the empty mapping as parameters neither client sends a \<^verbatim>\<open>params\<close> key.
\<close>

theorem jsonrpc_envelope_witness:
  "(Some [] :: json_dict option) = Some []
   \<and> ''params'' \<notin> fst ` set (body (fst (send_request
        (MCPClient_init ''https://mcp.penguinbank.cloud'') ''tools/list'' (Some [])
        (Raises (Exception ''timed out'')))))
   \<and> ''params'' \<notin> fst ` set (body (fst (send_mcp_request
        \<lparr>sse_server_url = ''https://mcp.penguinbank.cloud''\<rparr> ''tools/list'' (Some [])
        (Raises (Exception ''timed out'')))))"
  using jsonrpc_envelope
    [of "MCPClient_init ''https://mcp.penguinbank.cloud''" "''tools/list''" "Some []"
        "Raises (Exception ''timed out'')"
        "\<lparr>sse_server_url = ''https://mcp.penguinbank.cloud''\<rparr>"]
  by simp

section \<open>Properties of the event-stream client\<close>

subsection \<open>The loop over the delivered lines\<close>

lemma aiter_loop_fst:
  "fst (aiter_loop lines ending) = filter (\<lambda>line. strip line \<noteq> []) lines"
proof (induction lines)
  case Nil
  show ?case by (cases ending) simp_all
next
  case (Cons line lines)
  then show ?case by (simp add: Let_def split_beta)
qed

lemma aiter_loop_snd:
  "snd (aiter_loop lines ending) =
     (case ending of Closed \<Rightarrow> StopAsyncIteration | Dropped e \<Rightarrow> Propagates e)"
proof (induction lines)
  case Nil
  show ?case by (cases ending) simp_all
next
  case (Cons line lines)
  then show ?case by (simp add: Let_def split_beta)
qed

text \<open>A line is empty after \<^verbatim>\<open>strip()\<close> exactly when all its characters are whitespace.\<close>

lemma strip_Nil_iff: "strip s = [] \<longleftrightarrow> list_all py_isspace s"
proof
  assume "strip s = []"
  then have "dropWhile py_isspace (rev (dropWhile py_isspace s)) = []"
    by (simp add: strip_def)
  then have all: "\<forall>c \<in> set (dropWhile py_isspace s). py_isspace c"
    by (simp add: dropWhile_eq_Nil_conv)
  have "dropWhile py_isspace s = []"
  proof (rule ccontr)
    assume "dropWhile py_isspace s \<noteq> []"
    then have "\<not> py_isspace (hd (dropWhile py_isspace s))"
      and "hd (dropWhile py_isspace s) \<in> set (dropWhile py_isspace s)"
      by (simp_all add: hd_dropWhile)
    with all show False by blast
  qed
  then show "list_all py_isspace s"
    by (simp add: dropWhile_eq_Nil_conv list_all_iff)
next
  assume "list_all py_isspace s"
  then show "strip s = []"
    by (auto simp: strip_def list_all_iff dest: set_dropWhileD)
qed

subsection \<open>C6\<close>

text \<open>
  Claim C6. When the server answers the GET of \<^verbatim>\<open>connect_sse\<close> with a status other than
  200, the event sequence ends at once: no event is yielded and the generator returns,
  so nothing is raised to the consumer.
\<close>

theorem connect_sse_non_200:
  "status \<noteq> 200 \<Longrightarrow>
   connect_sse self (Streams status hs lines ending) = ([], StopAsyncIteration)"
  by (simp add: connect_sse_def)

text \<open>
  A 404 answer yields no event, whatever the body holds.
\<close>

theorem connect_sse_non_200_witness:
  "(404::int) \<noteq> 200
   \<and> connect_sse \<lparr>sse_server_url = ''https://mcp.penguinbank.cloud''\<rparr>
        (Streams 404 [] [''data: 1''] Closed) = ([], StopAsyncIteration)"
proof -
  have status: "(404::int) \<noteq> 200" by simp
  from connect_sse_non_200 [OF status] show ?thesis by simp
qed

subsection \<open>C7\<close>

text \<open>
  Claim C7, as the code has it. After a 200 connect, \<^verbatim>\<open>connect_sse\<close> yields the
  non-blank lines received; when the stream then fails, the exception leaves the
  generator and reaches the consumer (\<^verbatim>\<open>connect_sse\<close> has no handler; its caller has
  one), and when the server closes the stream the generator is exhausted. The consumer
  can tell the two apart.
\<close>

theorem mid_stream_error_propagates:
  "connect_sse self (Streams 200 hs lines (Dropped e)) =
     (filter (\<lambda>line. strip line \<noteq> []) lines, Propagates e)
   \<and> connect_sse self (Streams 200 hs lines Closed) =
     (filter (\<lambda>line. strip line \<noteq> []) lines, StopAsyncIteration)"
  by (simp add: connect_sse_def prod_eq_iff aiter_loop_fst aiter_loop_snd)

text \<open>
  Claim C7 as worded (a mid-stream transport error ends the sequence without an error
  reaching the consumer) fails on the code: on the same line received, a dropped
  connection ends with the exception propagated and a clean close with the generator
  exhausted.
\<close>

theorem mid_stream_error_counterexample:
  "connect_sse \<lparr>sse_server_url = ''https://mcp.penguinbank.cloud''\<rparr>
      (Streams 200 [] [''data: 1''] (Dropped (Exception ''peer closed connection''))) =
     ([''data: 1''], Propagates (Exception ''peer closed connection''))
   \<and> connect_sse \<lparr>sse_server_url = ''https://mcp.penguinbank.cloud''\<rparr>
      (Streams 200 [] [''data: 1''] Closed) = ([''data: 1''], StopAsyncIteration)"
  by code_simp

subsection \<open>C8\<close>

text \<open>
  Claim C8. After a 200 connect, \<^verbatim>\<open>connect_sse\<close> yields exactly the lines that are not
  blank after stripping whitespace, in order and unchanged, which are the lines with at
  least one character that is not whitespace; the body
  \<^verbatim>\<open>data: {"a":1}\n\nfoo\n\n\<close> yields exactly the two lines \<^verbatim>\<open>data: {"a":1}\<close> and
  \<^verbatim>\<open>foo\<close>.
\<close>

theorem connect_sse_yields_non_blank_lines:
  "fst (connect_sse self (Streams 200 hs lines ending)) =
     filter (\<lambda>line. strip line \<noteq> []) lines
   \<and> fst (connect_sse self (Streams 200 hs lines ending)) =
     filter (\<lambda>line. \<not> list_all py_isspace line) lines
   \<and> fst (connect_sse self (Streams 200 hs
        (aiter_lines (''data: {\"a\":1}'' @ [CHR 0x0A, CHR 0x0A] @ ''foo'' @ [CHR 0x0A, CHR 0x0A]))
        Closed)) = [''data: {\"a\":1}'', ''foo'']"
proof -
  have decoded:
    "aiter_lines (''data: {\"a\":1}'' @ [CHR 0x0A, CHR 0x0A] @ ''foo'' @ [CHR 0x0A, CHR 0x0A]) =
       [''data: {\"a\":1}'', '''', ''foo'', '''']"
    by code_simp
  have kept: "filter (\<lambda>line. strip line \<noteq> []) [''data: {\"a\":1}'', '''', ''foo'', ''''] =
       [''data: {\"a\":1}'', ''foo'']"
    by code_simp
  have yielded: "fst (connect_sse self (Streams 200 hs ls ending')) =
       filter (\<lambda>line. strip line \<noteq> []) ls" for ls ending'
    by (simp add: connect_sse_def aiter_loop_fst)
  have "fst (connect_sse self (Streams 200 hs
        (aiter_lines (''data: {\"a\":1}'' @ [CHR 0x0A, CHR 0x0A] @ ''foo'' @ [CHR 0x0A, CHR 0x0A]))
        Closed)) =
      filter (\<lambda>line. strip line \<noteq> []) [''data: {\"a\":1}'', [], ''foo'', []]"
    by (simp only: yielded decoded)
  also note kept
  finally have example: "fst (connect_sse self (Streams 200 hs
        (aiter_lines (''data: {\"a\":1}'' @ [CHR 0x0A, CHR 0x0A] @ ''foo'' @ [CHR 0x0A, CHR 0x0A]))
        Closed)) = [''data: {\"a\":1}'', ''foo'']" .
  have visible: "fst (connect_sse self (Streams 200 hs lines ending)) =
       filter (\<lambda>line. \<not> list_all py_isspace line) lines"
    by (simp add: yielded strip_Nil_iff)
  from yielded [of lines ending] visible example show ?thesis by (intro conjI)
qed

end
